theory Spec2Isabelle
  imports Main "HOL-Library.AList"
begin

section \<open>Python values\<close>

text \<open>
  A Python \<open>str\<close> is a sequence of Unicode code points, so it is modelled as a list of
  natural numbers; \<open>ascii\<close> embeds an ASCII literal. The literals of the source that are
  not ASCII are written as their code points.
\<close>

type_synonym pystr = "nat list"

definition ascii :: "string \<Rightarrow> pystr" where
  "ascii s = map of_char s"

text \<open>
  The values a caller can pass where the source says \<open>Any\<close>: \<open>None\<close>, booleans, integers
  and strings. Floats and containers are outside the model.
\<close>

datatype pyval = PNone | PBool bool | PInt int | PStr pystr

text \<open>Python's \<open>==\<close> on these values; \<open>bool\<close> is a subclass of \<open>int\<close>, so \<open>True == 1\<close>.\<close>

fun py_eq :: "pyval \<Rightarrow> pyval \<Rightarrow> bool" where
  "py_eq PNone PNone = True"
| "py_eq (PBool a) (PBool b) = (a = b)"
| "py_eq (PBool a) (PInt j) = ((if a then 1 else 0) = j)"
| "py_eq (PInt i) (PBool b) = (i = (if b then 1 else 0))"
| "py_eq (PInt i) (PInt j) = (i = j)"
| "py_eq (PStr s) (PStr t) = (s = t)"
| "py_eq _ _ = False"

text \<open>Truth value of a value in a boolean context.\<close>

fun truthy :: "pyval \<Rightarrow> bool" where
  "truthy PNone = False"
| "truthy (PBool b) = b"
| "truthy (PInt i) = (i \<noteq> 0)"
| "truthy (PStr s) = (s \<noteq> [])"

text \<open>\<open>str(x)\<close>, as an f-string renders a value.\<close>

fun nat_digits :: "nat \<Rightarrow> pystr" where
  "nat_digits n = (if n < 10 then [48 + n] else nat_digits (n div 10) @ [48 + n mod 10])"

declare nat_digits.simps [simp del]

definition int_str :: "int \<Rightarrow> pystr" where
  "int_str i = (if i < 0 then 45 # nat_digits (nat (- i)) else nat_digits (nat i))"

fun py_str :: "pyval \<Rightarrow> pystr" where
  "py_str PNone = ascii ''None''"
| "py_str (PBool b) = (if b then ascii ''True'' else ascii ''False'')"
| "py_str (PInt i) = int_str i"
| "py_str (PStr s) = s"

subsection \<open>Dictionaries\<close>

text \<open>
  A \<open>dict\<close> keeps its keys unique and in insertion order: an association list.
  \<open>d[k] = v\<close> replaces the value of a present key in place and appends a new key at the
  end, which is \<open>AList.update\<close>; \<open>d[k]\<close> and \<open>d.get(k)\<close> are \<open>map_of\<close>.
\<close>

type_synonym 'v dict = "(pystr \<times> 'v) list"

definition keys :: "'v dict \<Rightarrow> pystr list" where
  "keys d = map fst d"

definition has_key :: "pystr \<Rightarrow> 'v dict \<Rightarrow> bool" where
  "has_key k d = (k \<in> set (keys d))"

definition dict_set :: "pystr \<Rightarrow> 'v \<Rightarrow> 'v dict \<Rightarrow> 'v dict" where
  "dict_set k v d = AList.update k v d"

definition dict_get :: "'v dict \<Rightarrow> pystr \<Rightarrow> 'v \<Rightarrow> 'v" where
  "dict_get d k dflt = (case map_of d k of None \<Rightarrow> dflt | Some v \<Rightarrow> v)"

section \<open>models.py\<close>

definition MIN_PLAYERS :: nat where
  "MIN_PLAYERS = 2"

datatype GameStatus = WAITING | PLAYING | ENDED

fun status_name :: "GameStatus \<Rightarrow> pystr" where
  "status_name WAITING = ascii ''WAITING''"
| "status_name PLAYING = ascii ''PLAYING''"
| "status_name ENDED = ascii ''ENDED''"

section \<open>exceptions.py\<close>

text \<open>
  The classes of \<open>exceptions.py\<close>, all below \<open>GameError\<close>, and \<open>NonGame n\<close> for an
  exception class named \<open>n\<close> outside that hierarchy (\<open>NameError\<close>, \<open>KeyError\<close>, ...).
  An exception value carries its class and \<open>str(error)\<close>.
\<close>

datatype exc_class =
    GameError
  | GameNotFoundError
  | PlayerNotInGameError
  | PlayerAlreadyJoinedError
  | GameNotWaitingError
  | GameNotPlayingError
  | NotEnoughPlayersError
  | NotPlayersTurnError
  | InvalidActionError
  | InvalidBetError
  | NonGame pystr

datatype exc = Exc (exc_cls: exc_class) (exc_str: pystr)

text \<open>\<open>isinstance(error, GameError)\<close>\<close>

fun is_GameError :: "exc_class \<Rightarrow> bool" where
  "is_GameError (NonGame n) = False"
| "is_GameError _ = True"

text \<open>\<open>type(error).__name__\<close>\<close>

fun class_name :: "exc_class \<Rightarrow> pystr" where
  "class_name GameError = ascii ''GameError''"
| "class_name GameNotFoundError = ascii ''GameNotFoundError''"
| "class_name PlayerNotInGameError = ascii ''PlayerNotInGameError''"
| "class_name PlayerAlreadyJoinedError = ascii ''PlayerAlreadyJoinedError''"
| "class_name GameNotWaitingError = ascii ''GameNotWaitingError''"
| "class_name GameNotPlayingError = ascii ''GameNotPlayingError''"
| "class_name NotEnoughPlayersError = ascii ''NotEnoughPlayersError''"
| "class_name NotPlayersTurnError = ascii ''NotPlayersTurnError''"
| "class_name InvalidActionError = ascii ''InvalidActionError''"
| "class_name InvalidBetError = ascii ''InvalidBetError''"
| "class_name (NonGame n) = n"

text \<open>
  What the interpreter raises by itself. \<open>game_logic.py\<close> imports \<open>GameError\<close>,
  \<open>PlayerNotInGameError\<close>, \<open>NotPlayersTurnError\<close>, \<open>GameNotWaitingError\<close>,
  \<open>GameNotPlayingError\<close> and \<open>NotEnoughPlayersError\<close> only, so evaluating the name
  \<open>InvalidActionError\<close> in that module raises \<open>NameError\<close>. A missing dictionary key
  raises \<open>KeyError\<close>, whose text is the \<open>repr\<close> of the key (written here for a key
  without quotes, backslashes or unprintable characters).
\<close>

definition name_error :: "string \<Rightarrow> exc" where
  "name_error n = Exc (NonGame (ascii ''NameError''))
     (ascii ''name '' @ [39] @ ascii n @ [39] @ ascii '' is not defined'')"

definition key_error :: "pystr \<Rightarrow> exc" where
  "key_error k = Exc (NonGame (ascii ''KeyError'')) ([39] @ k @ [39])"

section \<open>game_logic.py\<close>

subsection \<open>State\<close>

text \<open>An entry of \<open>state["players"]\<close>: the dictionary with the keys \<open>name\<close> and \<open>is_ai\<close>.\<close>

record player =
  name :: pystr
  is_ai :: bool

text \<open>\<open>self.state\<close>; \<open>None\<close> for \<open>winning_result\<close> is \<open>PNone\<close>.\<close>

record game_state =
  status :: GameStatus
  creator_id :: "pystr option"
  players :: "player dict"
  bet_type :: "pystr option"
  bet_content :: "pyval dict"
  winning_result :: pyval
  player_bets :: "pyval dict"

text \<open>The two bet types (guess the number, guess odd or even) and the two outcomes of the second.\<close>

definition guess_number :: pystr where
  "guess_number = [0x731C, 0x6570, 0x5B57]"

definition guess_odd_even :: pystr where
  "guess_odd_even = [0x731C, 0x5355, 0x53CC]"

definition odd_tag :: pystr where
  "odd_tag = [0x5355]"

definition even_tag :: pystr where
  "even_tag = [0x53CC]"

text \<open>\<open>BettingGame.__init__\<close>\<close>

definition new_game :: "pystr option \<Rightarrow> game_state" where
  "new_game creator = \<lparr> status = WAITING, creator_id = creator, players = [],
     bet_type = None, bet_content = [], winning_result = PNone, player_bets = [] \<rparr>"

subsection \<open>Results of the operations\<close>

text \<open>
  An operation returns what the method returns, or the exception it raises, together with
  the state it leaves behind: a method that raises after an assignment leaves the
  assignment in \<open>self.state\<close>.
\<close>

record start_payload =
  sg_success :: bool
  sg_bet_type :: pystr
  sg_bet_params :: "pyval dict"
  sg_player_names :: "pystr list"

text \<open>
  The payload of \<open>process_bet\<close>; \<open>pb_results = None\<close> is the payload without the key
  \<open>results\<close>. An entry of the results is the dictionary with the keys \<open>name\<close>,
  \<open>is_ai\<close> and \<open>is_win\<close>.
\<close>

record bet_payload =
  pb_success :: bool
  pb_action :: pystr
  pb_player_id :: pystr
  pb_player_name :: pystr
  pb_bet :: pyval
  pb_game_ended :: bool
  pb_results :: "pyval dict dict option"

subsection \<open>add_player\<close>

definition add_player :: "pystr \<Rightarrow> pystr \<Rightarrow> bool \<Rightarrow> game_state \<Rightarrow> (exc + unit) \<times> game_state" where
  "add_player pid pname ai s =
     (if status s \<noteq> WAITING then
        (Inl (Exc GameNotWaitingError
           ([0x6E38, 0x620F, 0x6B63, 0x5728, 0x8FDB, 0x884C, 0x28] @ status_name (status s)
            @ [0x29, 0xFF0C, 0x65E0, 0x6CD5, 0x52A0, 0x5165, 0x3002])), s)
      else if has_key pid (players s) then (Inr (), s)
      else (Inr (), s\<lparr> players := dict_set pid \<lparr> name = pname, is_ai = ai \<rparr> (players s) \<rparr>))"

subsection \<open>start_game\<close>

text \<open>
  \<open>random.randint\<close> belongs to the standard library: the draw is a parameter
  \<open>randint\<close>, which returns an integer or raises (on an empty range, on bounds that are
  not integers). What the library raises is outside the \<open>GameError\<close> hierarchy: the class
  name and the text.
\<close>

type_synonym random_source = "pyval \<Rightarrow> pyval \<Rightarrow> (pystr \<times> pystr) + int"

text \<open>
  \<open>_generate_winning_result\<close>: its only assignment is its last step, so when it raises
  the state is the one it was given.
\<close>

definition generate_winning_result :: "random_source \<Rightarrow> game_state \<Rightarrow> exc + game_state" where
  "generate_winning_result randint s =
     (if bet_type s = Some guess_number then
        (case map_of (bet_content s) (ascii ''min'') of
           None \<Rightarrow> Inl (key_error (ascii ''min''))
         | Some lo \<Rightarrow>
             (case map_of (bet_content s) (ascii ''max'') of
                None \<Rightarrow> Inl (key_error (ascii ''max''))
              | Some hi \<Rightarrow>
                  (case randint lo hi of
                     Inl (n, m) \<Rightarrow> Inl (Exc (NonGame n) m)
                   | Inr n \<Rightarrow> Inr (s\<lparr> winning_result := PInt n \<rparr>))))
      else if bet_type s = Some guess_odd_even then
        (case randint (PInt 0) (PInt 1) of
           Inl (n, m) \<Rightarrow> Inl (Exc (NonGame n) m)
         | Inr n \<Rightarrow> Inr (s\<lparr> winning_result := PStr (if n = 0 then odd_tag else even_tag) \<rparr>))
      else Inr s)"

definition start_game ::
  "random_source \<Rightarrow> pystr \<Rightarrow> pyval dict \<Rightarrow> game_state \<Rightarrow> (exc + start_payload) \<times> game_state" where
  "start_game randint btype bet_params s =
     (if status s \<noteq> WAITING then (Inl (name_error ''InvalidActionError''), s)
      else if length (players s) < MIN_PLAYERS then
        (Inl (Exc NotEnoughPlayersError
           ([0x81F3, 0x5C11, 0x9700, 0x8981, 0x20] @ int_str (int MIN_PLAYERS)
            @ [0x20, 0x4EBA, 0x624D, 0x80FD, 0x5F00, 0x59CB, 0x3002])), s)
      else
        (let s1 = s\<lparr> bet_type := Some btype, bet_content := bet_params \<rparr> in
         case generate_winning_result randint s1 of
           Inl e \<Rightarrow> (Inl e, s1)
         | Inr s2 \<Rightarrow>
             (let s3 = s2\<lparr> status := PLAYING \<rparr> in
              (Inr \<lparr> sg_success = True, sg_bet_type = btype, sg_bet_params = bet_params,
                      sg_player_names = map (\<lambda>pid. name (the (map_of (players s3) pid)))
                                            (keys (players s3)) \<rparr>, s3))))"

subsection \<open>process_bet\<close>

text \<open>
  The loop of \<open>_end_game\<close> over \<open>player_bets.items()\<close>; \<open>players[player_id]\<close> raises
  \<open>KeyError\<close> for a bettor who is not enrolled.
\<close>

definition is_win_of :: "game_state \<Rightarrow> pyval \<Rightarrow> bool" where
  "is_win_of s b =
     (if bet_type s = Some guess_number then py_eq b (winning_result s)
      else if bet_type s = Some guess_odd_even then py_eq b (winning_result s)
      else False)"

definition result_entry :: "player \<Rightarrow> bool \<Rightarrow> pyval dict" where
  "result_entry p is_win =
     [(ascii ''name'', PStr (name p)), (ascii ''is_ai'', PBool (is_ai p)),
      (ascii ''is_win'', PBool is_win)]"

fun end_game_loop :: "game_state \<Rightarrow> pyval dict \<Rightarrow> pyval dict dict \<Rightarrow> exc + pyval dict dict" where
  "end_game_loop s [] results = Inr results"
| "end_game_loop s ((pid, b) # rest) results =
     (let is_win = is_win_of s b
      in case map_of (players s) pid of
           None \<Rightarrow> Inl (key_error pid)
         | Some p \<Rightarrow> end_game_loop s rest (dict_set pid (result_entry p is_win) results))"

definition end_game :: "game_state \<Rightarrow> (exc + pyval dict dict) \<times> game_state" where
  "end_game s =
     (case end_game_loop s (player_bets s) [] of
        Inl e \<Rightarrow> (Inl e, s)
      | Inr results \<Rightarrow> (Inr results, s\<lparr> status := ENDED \<rparr>))"

definition check_is_playing :: "game_state \<Rightarrow> exc option" where
  "check_is_playing s =
     (if status s \<noteq> PLAYING then
        Some (Exc GameNotPlayingError
          ([0x6E38, 0x620F, 0x9700, 0x8981, 0x4E3A, 0x20] @ ascii ''PLAYING''
           @ [0x20, 0x72B6, 0x6001, 0x20, 0x28, 0x5F53, 0x524D, 0x3A, 0x20]
           @ status_name (status s) @ [0x29, 0x3002]))
      else None)"

definition process_bet :: "pystr \<Rightarrow> pyval \<Rightarrow> game_state \<Rightarrow> (exc + bet_payload) \<times> game_state" where
  "process_bet pid b s =
     (case check_is_playing s of
        Some e \<Rightarrow> (Inl e, s)
      | None \<Rightarrow>
          if \<not> has_key pid (players s) then
            (Inl (Exc PlayerNotInGameError
               ([0x73A9, 0x5BB6, 0x20] @ pid @ [0x20, 0x4E0D, 0x5728, 0x672C, 0x5C40, 0x3002])), s)
          else if has_key pid (player_bets s) then (Inl (name_error ''InvalidActionError''), s)
          else
            (let s1 = s\<lparr> player_bets := dict_set pid b (player_bets s) \<rparr> in
             if length (player_bets s1) = length (players s1) then
               (case end_game s1 of
                  (Inl e, s2) \<Rightarrow> (Inl e, s2)
                | (Inr results, s2) \<Rightarrow>
                    (Inr \<lparr> pb_success = True, pb_action = ascii ''bet'', pb_player_id = pid,
                            pb_player_name = name (the (map_of (players s2) pid)), pb_bet = b,
                            pb_game_ended = True, pb_results = Some results \<rparr>, s2))
             else
               (Inr \<lparr> pb_success = True, pb_action = ascii ''bet'', pb_player_id = pid,
                       pb_player_name = name (the (map_of (players s1) pid)), pb_bet = b,
                       pb_game_ended = False, pb_results = None \<rparr>, s1)))"

subsection \<open>Sequences of calls\<close>

text \<open>
  A caller holds one game and calls its three methods in any order, catching what they
  raise; the state after a call is the second component of its result.
\<close>

datatype call =
    AddPlayer pystr pystr bool
  | StartGame random_source pystr "pyval dict"
  | ProcessBet pystr pyval

fun step :: "game_state \<Rightarrow> call \<Rightarrow> game_state" where
  "step s (AddPlayer pid pname ai) = snd (add_player pid pname ai s)"
| "step s (StartGame randint btype bet_params) = snd (start_game randint btype bet_params s)"
| "step s (ProcessBet pid b) = snd (process_bet pid b s)"

definition run :: "call list \<Rightarrow> game_state \<Rightarrow> game_state" where
  "run cs s = foldl step s cs"


section \<open>message_utils.py\<close>

text \<open>The two message components of the host: a mention of a user and plain text.\<close>

datatype comp = At int | Plain pystr

text \<open>
  \<open>_get_player_mention\<close>. \<open>str.isdigit\<close> and \<open>int\<close> are built-ins that depend on the
  Unicode tables of the interpreter: they are the parameters \<open>isdigit\<close> and \<open>to_int\<close>,
  the second returning \<open>None\<close> where \<open>int\<close> raises \<open>ValueError\<close>.
\<close>

definition get_player_mention ::
  "(pystr \<Rightarrow> bool) \<Rightarrow> (pystr \<Rightarrow> int option) \<Rightarrow> pystr \<Rightarrow> pystr \<Rightarrow> bool \<Rightarrow> comp list" where
  "get_player_mention isdigit to_int player_id player_name ai =
     (if \<not> ai \<and> isdigit player_id then
        (case to_int player_id of
           Some n \<Rightarrow> [At n, Plain ([0x28] @ player_name @ [0x29])]
         | None \<Rightarrow> [Plain player_name])
      else if ai then [Plain ([0x1F916, 0x20] @ player_name)]
      else [Plain player_name])"

text \<open>The two built-ins on a string of ASCII digits.\<close>

definition isdigit_ascii :: "pystr \<Rightarrow> bool" where
  "isdigit_ascii t = (t \<noteq> [] \<and> list_all (\<lambda>c. 48 \<le> c \<and> c \<le> 57) t)"

definition to_int_ascii :: "pystr \<Rightarrow> int option" where
  "to_int_ascii t =
     (if isdigit_ascii t then Some (foldl (\<lambda>a c. 10 * a + int (c - 48)) 0 t) else None)"

text \<open>
  \<open>build_bet_result_messages\<close>. The loop binds \<open>is_win\<close> to the value of the item, which
  is the whole entry of the player, and the text is chosen by the truth value of that
  dictionary: a dictionary is true when it is not empty. The name and the flag are
  looked up in the entry, the name is rendered by an f-string and the flag is read as a
  truth value.
\<close>

definition build_bet_result_messages ::
  "(pystr \<Rightarrow> bool) \<Rightarrow> (pystr \<Rightarrow> int option) \<Rightarrow> pyval dict dict \<Rightarrow> comp list list" where
  "build_bet_result_messages isdigit to_int results =
     map (\<lambda>(player_id, is_win).
            let player_name = dict_get (dict_get results player_id []) (ascii ''name'')
                                (PStr [0x672A, 0x77E5, 0x73A9, 0x5BB6]);
                ai = dict_get (dict_get results player_id []) (ascii ''is_ai'') (PBool False);
                mention_comps = get_player_mention isdigit to_int player_id
                                  (py_str player_name) (truthy ai);
                result_text = (if is_win \<noteq> [] then [0x731C, 0x5BF9] else [0x731C, 0x9519])
            in [Plain [0x1F449, 0x20]] @ mention_comps @ [Plain ([0x20] @ result_text @ [0xFF01])])
         results"

text \<open>\<open>build_error_message\<close>\<close>

definition build_error_message :: "exc \<Rightarrow> pystr" where
  "build_error_message error =
     (if is_GameError (exc_cls error) then
        [0x26A0, 0xFE0F, 0x20, 0x64CD, 0x4F5C, 0x5931, 0x8D25, 0x3A, 0x20] @ exc_str error
      else
        [0x274C, 0x20, 0x5185, 0x90E8, 0x9519, 0x8BEF, 0x3A, 0x20]
        @ [0x5904, 0x7406, 0x65F6, 0x9047, 0x5230, 0x610F, 0x5916, 0x95EE, 0x9898, 0x3002,
           0x8BF7, 0x8054, 0x7CFB, 0x7BA1, 0x7406, 0x5458, 0x3002, 0x9519, 0x8BEF, 0x7C7B,
           0x578B, 0x3A, 0x20]
        @ class_name (exc_cls error))"

section \<open>Sample games\<close>

text \<open>A random source that draws the lower bound, and raises on anything but integer bounds in order.\<close>

definition draw_low :: random_source where
  "draw_low lo hi =
     (case (lo, hi) of
        (PInt a, PInt b) \<Rightarrow>
          if a \<le> b then Inr a else Inl (ascii ''ValueError'', ascii ''empty range'')
      | _ \<Rightarrow> Inl (ascii ''TypeError'', ascii ''bounds are not integers''))"

text \<open>Two people join, with the ids 111 and 222.\<close>

definition joining :: "call list" where
  "joining = [AddPlayer (ascii ''111'') (ascii ''A'') False,
              AddPlayer (ascii ''222'') (ascii ''B'') False]"

definition two_joined :: game_state where
  "two_joined = run joining (new_game None)"

text \<open>A round of odd or even starts (the draw is odd) and the first player bets odd.\<close>

definition odd_even_round :: "call list" where
  "odd_even_round = joining @ [StartGame draw_low guess_odd_even [],
                               ProcessBet (ascii ''111'') (PStr odd_tag)]"

definition one_bet_placed :: game_state where
  "one_bet_placed = run odd_even_round (new_game None)"

text \<open>A round starts with a bet type that is neither of the two, and the first player bets \<open>None\<close>.\<close>

definition dice_start :: "call list" where
  "dice_start = joining @ [StartGame draw_low (ascii ''dice'') []]"

definition dice_started :: game_state where
  "dice_started = run dice_start (new_game None)"



text \<open>The results of the round of odd or even when the second player bets even and loses.\<close>

definition odd_even_results :: "pyval dict dict" where
  "odd_even_results =
     [(ascii ''111'', [(ascii ''name'', PStr (ascii ''A'')), (ascii ''is_ai'', PBool False),
                       (ascii ''is_win'', PBool True)]),
      (ascii ''222'', [(ascii ''name'', PStr (ascii ''B'')), (ascii ''is_ai'', PBool False),
                       (ascii ''is_win'', PBool False)])]"

section \<open>Invariant of the game state\<close>

text \<open>The bet type of the state is one of the two that the engine knows.\<close>

definition supported :: "game_state \<Rightarrow> bool" where
  "supported s = (bet_type s = Some guess_number \<or> bet_type s = Some guess_odd_even)"

text \<open>
  What every state reached from a new game satisfies: the keys of both dictionaries are
  unique, every bettor is enrolled, a waiting game has no winning result and no bets, and
  a started game has a bet type, and a winning result exactly when the bet type is known.
\<close>

definition game_inv :: "game_state \<Rightarrow> bool" where
  "game_inv s = (distinct (keys (players s)) \<and> distinct (keys (player_bets s))
     \<and> set (keys (player_bets s)) \<subseteq> set (keys (players s))
     \<and> (status s = WAITING \<longrightarrow> winning_result s = PNone \<and> player_bets s = [])
     \<and> (status s \<noteq> WAITING \<longrightarrow> bet_type s \<noteq> None \<and> (winning_result s \<noteq> PNone \<longleftrightarrow> supported s)))"

section \<open>Lemmas on dictionaries, the invariant and the resolution loop\<close>

lemma dict_set_absent: "\<not> has_key k d \<Longrightarrow> dict_set k v d = d @ [(k, v)]"
  by (induction d) (auto simp: has_key_def keys_def dict_set_def)

lemma keys_dict_set: "set (keys (dict_set k v d)) = insert k (set (keys d))"
  by (simp add: keys_def dict_set_def dom_update)

lemma distinct_keys_dict_set: "distinct (keys d) \<Longrightarrow> distinct (keys (dict_set k v d))"
  by (simp add: keys_def dict_set_def distinct_update)

lemma map_of_dict_set: "map_of (dict_set k v d) = (map_of d)(k \<mapsto> v)"
  by (simp add: dict_set_def update_conv')

lemma has_key_map_of: "has_key k d \<longleftrightarrow> map_of d k \<noteq> None"
  by (simp add: has_key_def keys_def map_of_eq_None_iff)

lemma length_keys: "length (keys d) = length d"
  by (simp add: keys_def)

lemma game_inv_new_game: "game_inv (new_game c)"
  by (simp add: game_inv_def new_game_def keys_def)

lemma game_inv_add_player: "game_inv s \<Longrightarrow> game_inv (snd (add_player pid n ai s))"
  by (auto simp: game_inv_def add_player_def keys_dict_set distinct_keys_dict_set supported_def)

lemma gen_cases:
  "generate_winning_result r s = Inr s' \<Longrightarrow>
     s' = s\<lparr> winning_result := winning_result s' \<rparr> \<and>
     (if supported s then winning_result s' \<noteq> PNone else winning_result s' = winning_result s)"
  by (auto simp: generate_winning_result_def supported_def split: if_splits option.splits sum.splits prod.splits)

lemma gen_players: "generate_winning_result r s = Inr s' \<Longrightarrow> players s' = players s"
  by (auto simp: generate_winning_result_def split: if_splits option.splits sum.splits prod.splits)

lemma game_inv_start_game: "game_inv s \<Longrightarrow> game_inv (snd (start_game r bt bp s))"
proof -
  assume w: "game_inv s"
  show ?thesis
  proof (cases "status s \<noteq> WAITING \<or> length (players s) < MIN_PLAYERS")
    case True
    then show ?thesis using w by (auto simp: start_game_def)
  next
    case False
    let ?s1 = "s\<lparr> bet_type := Some bt, bet_content := bp \<rparr>"
    show ?thesis
    proof (cases "generate_winning_result r ?s1")
      case (Inl e)
      then show ?thesis using w False by (auto simp: start_game_def game_inv_def Let_def)
    next
      case (Inr s2)
      from gen_cases[OF Inr] have e: "s2 = ?s1\<lparr> winning_result := winning_result s2 \<rparr>"
        and c: "if supported ?s1 then winning_result s2 \<noteq> PNone else winning_result s2 = winning_result ?s1"
        by auto
      have "snd (start_game r bt bp s) = s2\<lparr> status := PLAYING \<rparr>"
        using False Inr by (simp add: start_game_def Let_def)
      moreover have "game_inv (s2\<lparr> status := PLAYING \<rparr>)"
        using w False c by (subst e) (auto simp: game_inv_def supported_def split: if_splits)
      ultimately show ?thesis by simp
    qed
  qed
qed


lemma keys_Cons: "keys ((k, v) # d) = k # keys d"
  by (simp add: keys_def)

lemma end_game_loop_ok:
  "distinct (keys bets) \<Longrightarrow> set (keys bets) \<subseteq> set (keys (players s)) \<Longrightarrow>
   \<exists>res. end_game_loop s bets acc = Inr res
     \<and> set (keys res) = set (keys acc) \<union> set (keys bets)
     \<and> (distinct (keys acc) \<longrightarrow> distinct (keys res))
     \<and> (\<forall>q. map_of res q =
           (case map_of bets q of
              None \<Rightarrow> map_of acc q
            | Some b \<Rightarrow> Some (result_entry (the (map_of (players s) q)) (is_win_of s b))))"
proof (induction bets arbitrary: acc)
  case Nil
  then show ?case by (simp add: keys_def)
next
  case (Cons x bets)
  obtain pid b where x: "x = (pid, b)" by (cases x)
  from Cons.prems x have d: "distinct (keys bets)" and nin: "pid \<notin> set (keys bets)"
    and sub: "set (keys bets) \<subseteq> set (keys (players s))" and pin: "pid \<in> set (keys (players s))"
    by (auto simp: keys_def)
  from pin obtain p where p: "map_of (players s) pid = Some p"
    using has_key_map_of[of pid "players s"] by (auto simp: has_key_def)
  let ?acc = "dict_set pid (result_entry p (is_win_of s b)) acc"
  from Cons.IH[OF d sub, of ?acc] obtain res where
    r: "end_game_loop s bets ?acc = Inr res"
    and k: "set (keys res) = set (keys ?acc) \<union> set (keys bets)"
    and dd: "distinct (keys ?acc) \<longrightarrow> distinct (keys res)"
    and m: "\<forall>q. map_of res q =
           (case map_of bets q of
              None \<Rightarrow> map_of ?acc q
            | Some b \<Rightarrow> Some (result_entry (the (map_of (players s) q)) (is_win_of s b)))"
    by blast
  have nb: "map_of bets pid = None"
    using nin by (simp add: keys_def map_of_eq_None_iff)
  have "end_game_loop s (x # bets) acc = Inr res" using x p r by simp
  moreover have "set (keys res) = set (keys acc) \<union> set (keys (x # bets))"
    using k x by (auto simp: keys_dict_set keys_Cons)
  moreover have "distinct (keys acc) \<longrightarrow> distinct (keys res)"
    using dd by (simp add: distinct_keys_dict_set)
  moreover have "\<forall>q. map_of res q =
           (case map_of (x # bets) q of
              None \<Rightarrow> map_of acc q
            | Some b \<Rightarrow> Some (result_entry (the (map_of (players s) q)) (is_win_of s b)))"
    using m x p nb by (auto simp: map_of_dict_set split: option.splits)
  ultimately show ?case by blast
qed


lemma process_bet_unfold:
  "status s = PLAYING \<Longrightarrow> has_key pid (players s) \<Longrightarrow> \<not> has_key pid (player_bets s) \<Longrightarrow>
   process_bet pid b s =
     (let s1 = s\<lparr> player_bets := player_bets s @ [(pid, b)] \<rparr> in
      if length (player_bets s1) = length (players s1) then
        (case end_game s1 of
           (Inl e, s2) \<Rightarrow> (Inl e, s2)
         | (Inr results, s2) \<Rightarrow>
             (Inr \<lparr> pb_success = True, pb_action = ascii ''bet'', pb_player_id = pid,
                     pb_player_name = name (the (map_of (players s2) pid)), pb_bet = b,
                     pb_game_ended = True, pb_results = Some results \<rparr>, s2))
      else
        (Inr \<lparr> pb_success = True, pb_action = ascii ''bet'', pb_player_id = pid,
                pb_player_name = name (the (map_of (players s1) pid)), pb_bet = b,
                pb_game_ended = False, pb_results = None \<rparr>, s1))"
  by (simp add: process_bet_def check_is_playing_def dict_set_absent Let_def)



lemma end_game_ok:
  assumes "distinct (keys (player_bets s))" "set (keys (player_bets s)) \<subseteq> set (keys (players s))"
  shows "\<exists>res. end_game s = (Inr res, s\<lparr> status := ENDED \<rparr>)
     \<and> set (keys res) = set (keys (player_bets s)) \<and> distinct (keys res)
     \<and> (\<forall>q. map_of res q =
           (case map_of (player_bets s) q of
              None \<Rightarrow> None
            | Some b \<Rightarrow> Some (result_entry (the (map_of (players s) q)) (is_win_of s b))))"
proof -
  from end_game_loop_ok[OF assms, of "[]"] obtain res where
    "end_game_loop s (player_bets s) [] = Inr res"
    "set (keys res) = set (keys ([] :: pyval dict dict)) \<union> set (keys (player_bets s))"
    "distinct (keys ([] :: pyval dict dict)) \<longrightarrow> distinct (keys res)"
    "\<forall>q. map_of res q =
           (case map_of (player_bets s) q of
              None \<Rightarrow> map_of ([] :: pyval dict dict) q
            | Some b \<Rightarrow> Some (result_entry (the (map_of (players s) q)) (is_win_of s b)))"
    by blast
  then show ?thesis by (auto simp: end_game_def keys_def split: option.splits)
qed

lemma keys_append: "keys (d @ [(k, v)]) = keys d @ [k]"
  by (simp add: keys_def)

lemma game_inv_process_bet: "game_inv s \<Longrightarrow> game_inv (snd (process_bet pid b s))"
proof -
  assume w: "game_inv s"
  show ?thesis
  proof (cases "status s = PLAYING \<and> has_key pid (players s) \<and> \<not> has_key pid (player_bets s)")
    case False
    then show ?thesis using w
      by (auto simp: process_bet_def check_is_playing_def)
  next
    case True
    let ?s1 = "s\<lparr> player_bets := player_bets s @ [(pid, b)] \<rparr>"
    have d1: "distinct (keys (player_bets ?s1))"
      using w True by (auto simp: game_inv_def keys_append has_key_def)
    have s1: "set (keys (player_bets ?s1)) \<subseteq> set (keys (players ?s1))"
      using w True by (auto simp: game_inv_def keys_append has_key_def)
    have w1: "game_inv ?s1"
      using w True d1 s1 by (auto simp: game_inv_def supported_def)
    show ?thesis
    proof (cases "length (player_bets ?s1) = length (players ?s1)")
      case False
      then have "snd (process_bet pid b s) = ?s1"
        using True by (simp add: process_bet_unfold Let_def)
      then show ?thesis using w1 by simp
    next
      case L: True
      from end_game_ok[OF d1 s1] obtain res where "end_game ?s1 = (Inr res, ?s1\<lparr> status := ENDED \<rparr>)"
        by blast
      then have "snd (process_bet pid b s) = ?s1\<lparr> status := ENDED \<rparr>"
        using True L by (simp add: process_bet_unfold Let_def)
      moreover have "game_inv (?s1\<lparr> status := ENDED \<rparr>)"
        using w1 True by (auto simp: game_inv_def supported_def)
      ultimately show ?thesis by simp
    qed
  qed
qed

lemma game_inv_step: "game_inv s \<Longrightarrow> game_inv (step s c)"
  by (cases c) (simp_all add: game_inv_add_player game_inv_start_game game_inv_process_bet)

lemma game_inv_run_from: "game_inv s \<Longrightarrow> game_inv (run cs s)"
  unfolding run_def by (induction cs arbitrary: s) (simp_all add: game_inv_step)

lemma game_inv_run: "game_inv (run cs (new_game c))"
  by (rule game_inv_run_from[OF game_inv_new_game])

lemma run_append: "run (cs @ cs') s = run cs' (run cs s)"
  by (simp add: run_def)

lemma players_step: "\<exists>more. players (step s c) = players s @ more"
proof (cases c)
  case (AddPlayer pid n ai)
  then show ?thesis by (auto simp: add_player_def dict_set_absent)
next
  case (StartGame r bt bp)
  show ?thesis
  proof (cases "generate_winning_result r (s\<lparr> bet_type := Some bt, bet_content := bp \<rparr>)")
    case (Inl e)
    then show ?thesis using StartGame by (auto simp: start_game_def Let_def)
  next
    case (Inr s2)
    from gen_players[OF Inr] have "players s2 = players s" by simp
    then show ?thesis using StartGame Inr by (auto simp: start_game_def Let_def)
  qed
next
  case (ProcessBet pid b)
  show ?thesis
    using ProcessBet
    by (auto simp: process_bet_def check_is_playing_def end_game_def Let_def
             split: sum.splits prod.splits)
qed

lemma players_run: "\<exists>more. players (run cs s) = players s @ more"
proof (induction cs arbitrary: s)
  case Nil
  then show ?case by (simp add: run_def)
next
  case (Cons c cs)
  from players_step[of s c] obtain m1 where a: "players (step s c) = players s @ m1" by blast
  from Cons.IH[of "step s c"] obtain m2 where "players (run cs (step s c)) = players (step s c) @ m2"
    by blast
  then have "players (run (c # cs) s) = players s @ (m1 @ m2)" using a by (simp add: run_def)
  then show ?case by blast
qed

lemma one_entry_per_key:
  "distinct (map fst d) \<Longrightarrow> k \<in> set (map fst d) \<Longrightarrow> length (filter (\<lambda>e. fst e = k) d) = 1"
proof (induction d)
  case Nil
  then show ?case by simp
next
  case (Cons a d)
  show ?case
  proof (cases "fst a = k")
    case True
    then have "k \<notin> fst ` set d" using Cons.prems(1) by auto
    then have "filter (\<lambda>e. fst e = k) d = []" by (auto simp: filter_empty_conv)
    then show ?thesis using True by simp
  next
    case False
    then show ?thesis using Cons by auto
  qed
qed



subsection \<open>The sample games, evaluated\<close>

lemma ascii_Nil: "ascii [] = []" by (simp add: ascii_def)
lemma ascii_Cons: "ascii (c # cs) = of_char c # ascii cs" by (simp add: ascii_def)
lemmas ascii_simps = ascii_Nil ascii_Cons

lemmas eval_defs = run_def new_game_def add_player_def has_key_def keys_def dict_set_def
  start_game_def MIN_PLAYERS_def generate_winning_result_def guess_number_def guess_odd_even_def
  odd_tag_def even_tag_def draw_low_def process_bet_def check_is_playing_def Let_def ascii_simps
  end_game_def is_win_of_def result_entry_def name_error_def key_error_def

lemma two_joined_eq:
  "two_joined = \<lparr> status = WAITING, creator_id = None,
      players = [([49, 49, 49], \<lparr> name = [65], is_ai = False \<rparr>),
                 ([50, 50, 50], \<lparr> name = [66], is_ai = False \<rparr>)],
      bet_type = None, bet_content = [], winning_result = PNone, player_bets = [] \<rparr>"
  by (simp add: two_joined_def joining_def eval_defs)

lemma one_bet_placed_eq:
  "one_bet_placed = \<lparr> status = PLAYING, creator_id = None,
      players = [([49, 49, 49], \<lparr> name = [65], is_ai = False \<rparr>),
                 ([50, 50, 50], \<lparr> name = [66], is_ai = False \<rparr>)],
      bet_type = Some [0x731C, 0x5355, 0x53CC], bet_content = [], winning_result = PStr [0x5355],
      player_bets = [([49, 49, 49], PStr [0x5355])] \<rparr>"
  by (simp add: one_bet_placed_def odd_even_round_def joining_def eval_defs)

lemma dice_started_eq:
  "dice_started = \<lparr> status = PLAYING, creator_id = None,
      players = [([49, 49, 49], \<lparr> name = [65], is_ai = False \<rparr>),
                 ([50, 50, 50], \<lparr> name = [66], is_ai = False \<rparr>)],
      bet_type = Some [100, 105, 99, 101], bet_content = [], winning_result = PNone,
      player_bets = [] \<rparr>"
  by (simp add: dice_started_def dice_start_def joining_def eval_defs)


subsection \<open>What the rejected calls raise\<close>

lemma process_bet_not_enrolled:
  "status s = PLAYING \<Longrightarrow> \<not> has_key pid (players s) \<Longrightarrow>
   process_bet pid b s =
     (Inl (Exc PlayerNotInGameError
        ([0x73A9, 0x5BB6, 0x20] @ pid @ [0x20, 0x4E0D, 0x5728, 0x672C, 0x5C40, 0x3002])), s)"
  by (simp add: process_bet_def check_is_playing_def)

lemma process_bet_second_bet:
  "status s = PLAYING \<Longrightarrow> has_key pid (players s) \<Longrightarrow> has_key pid (player_bets s) \<Longrightarrow>
   process_bet pid b s = (Inl (name_error ''InvalidActionError''), s)"
  by (simp add: process_bet_def check_is_playing_def)

lemma start_game_not_waiting:
  "status s \<noteq> WAITING \<Longrightarrow>
   start_game randint btype bet_params s = (Inl (name_error ''InvalidActionError''), s)"
  by (simp add: start_game_def)

subsection \<open>The announcements of a resolved round\<close>

text \<open>
  Every entry that \<open>_end_game\<close> builds has three keys, so it is true as a condition,
  and every message built from the results of a resolved round ends with "guessed right".
\<close>

lemma dict_set_entries: "set (dict_set k v d) \<subseteq> insert (k, v) (set d)"
  by (induction d) (auto simp: dict_set_def)

lemma end_game_loop_entries:
  "\<forall>e \<in> set acc. snd e \<noteq> [] \<Longrightarrow> end_game_loop s bets acc = Inr res \<Longrightarrow> \<forall>e \<in> set res. snd e \<noteq> []"
proof (induction bets arbitrary: acc)
  case Nil
  then show ?case by simp
next
  case (Cons x bets)
  obtain pid b where x: "x = (pid, b)" by (cases x)
  from Cons.prems(2) x obtain p where p: "map_of (players s) pid = Some p"
    and r: "end_game_loop s bets (dict_set pid (result_entry p (is_win_of s b)) acc) = Inr res"
    by (auto split: option.splits)
  have "\<forall>e \<in> set (dict_set pid (result_entry p (is_win_of s b)) acc). snd e \<noteq> []"
    using Cons.prems(1) dict_set_entries[of pid "result_entry p (is_win_of s b)" acc]
    by (auto simp: result_entry_def)
  from Cons.IH[OF this r] show ?case .
qed

lemma resolved_round_all_announced_right:
  "end_game s = (Inr res, s') \<Longrightarrow>
   \<forall>m \<in> set (build_bet_result_messages isdigit to_int res).
     last m = Plain [0x20, 0x731C, 0x5BF9, 0xFF01]"
proof -
  assume "end_game s = (Inr res, s')"
  then have "end_game_loop s (player_bets s) [] = Inr res"
    by (auto simp: end_game_def split: sum.splits)
  then have "\<forall>e \<in> set res. snd e \<noteq> []"
    using end_game_loop_entries[of "[]" s "player_bets s" res] by simp
  then show ?thesis by (auto simp: build_bet_result_messages_def Let_def)
qed

section \<open>Error rendering\<close>

text \<open>
  C9. For an error of a \<open>GameError\<close> class, \<open>build_error_message\<close> returns the warning
  prefix followed by the error's own text. For every other error it returns the
  internal-error prefix, the fixed sentence and the name of the error's class: the result
  is the same whatever the text of the error is, so the text is never used, and the
  result does not begin with the warning prefix.
\<close>

theorem build_error_message_kinds:
  "(is_GameError c \<longrightarrow>
      build_error_message (Exc c m)
        = [0x26A0, 0xFE0F, 0x20, 0x64CD, 0x4F5C, 0x5931, 0x8D25, 0x3A, 0x20] @ m) \<and>
   (\<not> is_GameError c \<longrightarrow>
      build_error_message (Exc c m)
        = [0x274C, 0x20, 0x5185, 0x90E8, 0x9519, 0x8BEF, 0x3A, 0x20]
          @ [0x5904, 0x7406, 0x65F6, 0x9047, 0x5230, 0x610F, 0x5916, 0x95EE, 0x9898, 0x3002,
             0x8BF7, 0x8054, 0x7CFB, 0x7BA1, 0x7406, 0x5458, 0x3002, 0x9519, 0x8BEF, 0x7C7B,
             0x578B, 0x3A, 0x20]
          @ class_name c
      \<and> build_error_message (Exc c m) = build_error_message (Exc c m')
      \<and> take 9 (build_error_message (Exc c m))
          \<noteq> [0x26A0, 0xFE0F, 0x20, 0x64CD, 0x4F5C, 0x5931, 0x8D25, 0x3A, 0x20])"
  by (simp add: build_error_message_def)

theorem build_error_message_kinds_witness:
  "is_GameError GameNotWaitingError
   \<and> build_error_message (Exc GameNotWaitingError [0x65E0, 0x6CD5])
       = [0x26A0, 0xFE0F, 0x20, 0x64CD, 0x4F5C, 0x5931, 0x8D25, 0x3A, 0x20, 0x65E0, 0x6CD5]
   \<and> \<not> is_GameError (NonGame [0x4B, 0x65, 0x79])
   \<and> build_error_message (Exc (NonGame [0x4B, 0x65, 0x79]) [0x65E0, 0x6CD5])
       = build_error_message (Exc (NonGame [0x4B, 0x65, 0x79]) [])
   \<and> take 9 (build_error_message (Exc (NonGame [0x4B, 0x65, 0x79]) [0x65E0, 0x6CD5]))
       \<noteq> [0x26A0, 0xFE0F, 0x20, 0x64CD, 0x4F5C, 0x5931, 0x8D25, 0x3A, 0x20]"
  using build_error_message_kinds [of GameNotWaitingError "[0x65E0, 0x6CD5]"]
        build_error_message_kinds [of "NonGame [0x4B, 0x65, 0x79]" "[0x65E0, 0x6CD5]" "[]"]
  by (simp add: build_error_message_def)

section \<open>Players and bets\<close>

text \<open>
  C7. In every state reached from a new game by calls of the three operations, the keys of
  \<open>player_bets\<close> are among the keys of \<open>players\<close>; and whatever calls follow, \<open>players\<close>
  keeps every entry it has, in place: the later dictionary is the earlier one followed by
  the new entries.
\<close>

theorem bets_within_players_and_players_grow:
  "set (keys (player_bets (run cs (new_game c)))) \<subseteq> set (keys (players (run cs (new_game c))))
   \<and> (\<exists>more. players (run (cs @ cs') (new_game c)) = players (run cs (new_game c)) @ more)"
proof -
  have "game_inv (run cs (new_game c))" by (rule game_inv_run)
  then have "set (keys (player_bets (run cs (new_game c)))) \<subseteq> set (keys (players (run cs (new_game c))))"
    by (simp add: game_inv_def)
  moreover have "\<exists>more. players (run (cs @ cs') (new_game c)) = players (run cs (new_game c)) @ more"
    using players_run[of cs' "run cs (new_game c)"] by (simp add: run_append)
  ultimately show ?thesis by blast
qed

theorem bets_within_players_and_players_grow_witness:
  "set (keys (player_bets (run odd_even_round (new_game None))))
     \<subseteq> set (keys (players (run odd_even_round (new_game None))))
   \<and> (\<exists>more. players (run (odd_even_round @ [ProcessBet (ascii ''222'') (PStr even_tag)]) (new_game None))
               = players (run odd_even_round (new_game None)) @ more)"
  using bets_within_players_and_players_grow
          [of odd_even_round None "[ProcessBet (ascii ''222'') (PStr even_tag)]"]
  by simp

text \<open>
  C8. In a waiting game reached from a new game, \<open>add_player\<close> for an id that is already
  enrolled does not raise and returns the state as it was, whatever name and flag it is
  given, so the stored entry keeps its name and its flag; and \<open>players\<close> has exactly one
  entry for that id.
\<close>

theorem add_player_again_is_ignored:
  assumes "s = run cs (new_game c)" and "status s = WAITING" and "has_key pid (players s)"
  shows "add_player pid pname ai s = (Inr (), s)
         \<and> length (filter (\<lambda>e. fst e = pid) (players s)) = 1"
proof -
  have "game_inv s" using assms(1) by (simp add: game_inv_run)
  then have d: "distinct (map fst (players s))" by (simp add: game_inv_def keys_def)
  have "pid \<in> set (map fst (players s))" using assms(3) by (simp add: has_key_def keys_def)
  with d have "length (filter (\<lambda>e. fst e = pid) (players s)) = 1" by (rule one_entry_per_key)
  then show ?thesis using assms(2,3) by (simp add: add_player_def)
qed

theorem add_player_again_is_ignored_witness:
  "two_joined = run joining (new_game None)
   \<and> status two_joined = WAITING
   \<and> has_key (ascii ''111'') (players two_joined)
   \<and> add_player (ascii ''111'') (ascii ''Z'') True two_joined = (Inr (), two_joined)
   \<and> length (filter (\<lambda>e. fst e = ascii ''111'') (players two_joined)) = 1"
proof -
  have h1: "two_joined = run joining (new_game None)" by (simp add: two_joined_def)
  have h2: "status two_joined = WAITING" by (simp add: two_joined_eq)
  have h3: "has_key (ascii ''111'') (players two_joined)"
    by (simp add: two_joined_eq has_key_def keys_def ascii_simps)
  show ?thesis
    using h1 h2 h3 add_player_again_is_ignored [OF h1 h2 h3, of "ascii ''Z''" True] by simp
qed



section \<open>Resolution of a round\<close>




section \<open>Bet type and winning result by status\<close>

text \<open>
  C6 (as amended). In every state reached from a new game the winning result is unset
  while the status is \<open>WAITING\<close>; when the status is \<open>PLAYING\<close> or \<open>ENDED\<close> the bet type
  is set, and the winning result is set exactly when the bet type is one of the two known
  types.
\<close>

theorem winning_result_set_when_type_known:
  "(status (run cs (new_game c)) = WAITING \<longrightarrow> winning_result (run cs (new_game c)) = PNone)
   \<and> (status (run cs (new_game c)) \<noteq> WAITING \<longrightarrow>
        bet_type (run cs (new_game c)) \<noteq> None
        \<and> (winning_result (run cs (new_game c)) \<noteq> PNone
             \<longleftrightarrow> bet_type (run cs (new_game c)) = Some guess_number
                 \<or> bet_type (run cs (new_game c)) = Some guess_odd_even))"
  using game_inv_run[of cs c] by (simp add: game_inv_def supported_def)

theorem winning_result_set_when_type_known_witness:
  "status (run joining (new_game None)) = WAITING
   \<and> winning_result (run joining (new_game None)) = PNone
   \<and> status (run odd_even_round (new_game None)) \<noteq> WAITING
   \<and> bet_type (run odd_even_round (new_game None)) \<noteq> None
   \<and> winning_result (run odd_even_round (new_game None)) \<noteq> PNone
   \<and> bet_type (run odd_even_round (new_game None)) = Some guess_odd_even"
  using winning_result_set_when_type_known [of joining None]
        winning_result_set_when_type_known [of odd_even_round None]
  by (simp add: two_joined_def[symmetric] one_bet_placed_def[symmetric]
        two_joined_eq one_bet_placed_eq guess_odd_even_def)

text \<open>
  The claim C6 as it is stated fails for a round started with a bet type that is neither
  of the two: the game is \<open>PLAYING\<close> and the winning result is unset.
\<close>

theorem unknown_type_no_winning_result_counterexample:
  "dice_started = run dice_start (new_game None)
   \<and> status dice_started = PLAYING
   \<and> bet_type dice_started = Some (ascii ''dice'')
   \<and> winning_result dice_started = PNone"
  by (simp add: dice_started_def[symmetric] dice_started_eq ascii_simps)

section \<open>State after a call that raises\<close>




section \<open>Where the code departs from the specification\<close>

text \<open>
  C2. In the round of odd or even the first player has bet. A bet for an id that is not
  enrolled fails with \<open>PlayerNotInGameError\<close> and leaves the state as it was. A second
  bet of the first player leaves the state as it was too, but what is raised is not
  \<open>InvalidActionError\<close>: the module never imports that name, so the \<open>raise\<close>
  statement raises \<open>NameError\<close>.
\<close>

theorem second_bet_raises_name_error:
  "status one_bet_placed = PLAYING
   \<and> has_key (ascii ''111'') (players one_bet_placed)
   \<and> has_key (ascii ''111'') (player_bets one_bet_placed)
   \<and> process_bet (ascii ''111'') (PStr even_tag) one_bet_placed
       = (Inl (name_error ''InvalidActionError''), one_bet_placed)
   \<and> process_bet (ascii ''333'') (PStr even_tag) one_bet_placed
       = (Inl (Exc PlayerNotInGameError
            ([0x73A9, 0x5BB6, 0x20] @ ascii ''333'' @ [0x20, 0x4E0D, 0x5728, 0x672C, 0x5C40, 0x3002])),
          one_bet_placed)
   \<and> exc_cls (name_error ''InvalidActionError'') = NonGame (ascii ''NameError'')
   \<and> exc_cls (name_error ''InvalidActionError'') \<noteq> InvalidActionError"
  by (simp add: one_bet_placed_eq process_bet_def check_is_playing_def has_key_def keys_def
        name_error_def ascii_simps)

text \<open>
  C3. \<open>start_game\<close> on a game that is not waiting leaves the state as it was, and what
  it raises is \<open>NameError\<close>, not \<open>InvalidActionError\<close>, for the same missing import.
\<close>

theorem start_game_when_started_raises_name_error:
  "status one_bet_placed \<noteq> WAITING
   \<and> start_game draw_low guess_odd_even [] one_bet_placed
       = (Inl (name_error ''InvalidActionError''), one_bet_placed)
   \<and> exc_cls (name_error ''InvalidActionError'') = NonGame (ascii ''NameError'')
   \<and> exc_cls (name_error ''InvalidActionError'') \<noteq> InvalidActionError"
  by (simp add: one_bet_placed_eq start_game_def name_error_def)

text \<open>
  C4. The second player bets even against a draw of odd and loses: the entry of the
  results has \<open>is_win\<close> false. \<open>build_bet_result_messages\<close> builds one message per
  entry, with the leading segment, the mention and a trailing segment, but the trailing
  segment of the loser reads "guessed right" like that of the winner, because the text is
  chosen by the truth value of the whole entry.
\<close>

theorem loser_is_announced_as_winner:
  "fst (process_bet (ascii ''222'') (PStr even_tag) one_bet_placed)
     = Inr \<lparr> pb_success = True, pb_action = ascii ''bet'', pb_player_id = ascii ''222'',
              pb_player_name = ascii ''B'', pb_bet = PStr even_tag,
              pb_game_ended = True, pb_results = Some odd_even_results \<rparr>
   \<and> build_bet_result_messages isdigit_ascii to_int_ascii odd_even_results
     = [[Plain [0x1F449, 0x20], At 111, Plain (ascii ''(A)''), Plain [0x20, 0x731C, 0x5BF9, 0xFF01]],
        [Plain [0x1F449, 0x20], At 222, Plain (ascii ''(B)''), Plain [0x20, 0x731C, 0x5BF9, 0xFF01]]]"
  by (simp add: one_bet_placed_eq odd_even_results_def eval_defs build_bet_result_messages_def
        dict_get_def get_player_mention_def isdigit_ascii_def to_int_ascii_def)

end
